theory Spec2Isabelle
  imports Complex_Main
begin

section \<open>Python's decimal numbers, as far as \<open>gravitino/api/decimal.py\<close> uses them\<close>

text \<open>
  A finite \<open>decimal.Decimal\<close> is what \<open>as_tuple()\<close> shows: a sign (0 or 1), the digits of
  the coefficient (most significant first, \<open>(0,)\<close> for zero, no leading zero otherwise) and
  an exponent. The infinities and the NaNs come after it, in \<open>pyvalue\<close>.
\<close>

record pydecimal =
  sign :: nat
  digits :: "nat list"
  exponent :: int

text \<open>\<open>int(s)\<close> of a digit string and \<open>str(n)\<close> of a natural number, on digit lists.\<close>

definition coeff :: "nat list \<Rightarrow> nat" where
  "coeff ds = foldl (\<lambda>a d. 10 * a + d) 0 ds"

fun digits_of :: "nat \<Rightarrow> nat list" where
  "digits_of n = (if n < 10 then [n] else digits_of (n div 10) @ [n mod 10])"

declare digits_of.simps [simp del]

text \<open>The default context of the decimal module: \<open>prec=28, Emin=-999999, Emax=999999\<close>.\<close>

definition ctx_prec :: int where "ctx_prec = 28"
definition ctx_Emax :: int where "ctx_Emax = 999999"
definition ctx_Emin :: int where "ctx_Emin = - 999999"
definition ctx_Etiny :: int where "ctx_Etiny = ctx_Emin - ctx_prec + 1"

text \<open>\<open>not self\<close> for a finite decimal: the coefficient is \<open>'0'\<close>.\<close>

definition is_zero :: "pydecimal \<Rightarrow> bool" where
  "is_zero v = (digits v = [0])"

text \<open>\<open>Decimal.adjusted()\<close>: \<open>self._exp + len(self._int) - 1\<close>.\<close>

definition adjusted :: "pydecimal \<Rightarrow> int" where
  "adjusted v = exponent v + int (length (digits v)) - 1"

text \<open>
  \<open>_round_half_up(self, prec)\<close>: 1 when the first dropped digit is one of 5..9, 0 when all
  dropped digits are zero, -1 otherwise. The callers keep \<open>prec\<close> below the number of digits.
\<close>

definition round_half_up :: "nat list \<Rightarrow> nat \<Rightarrow> int" where
  "round_half_up ds prec =
     (case drop prec ds of
        [] \<Rightarrow> 0
      | d # rest \<Rightarrow> if 5 \<le> d then 1 else if list_all (\<lambda>x. x = 0) (d # rest) then 0 else - 1)"

text \<open>
  \<open>Decimal._rescale(exp, ROUND_HALF_UP)\<close>: the decimal brought to the exponent \<open>e\<close>,
  padded with zeros when the exponent goes down, rounded when it goes up.
\<close>

definition rescale :: "pydecimal \<Rightarrow> int \<Rightarrow> pydecimal" where
  "rescale v e =
     (if is_zero v then \<lparr>sign = sign v, digits = [0], exponent = e\<rparr>
      else if e \<le> exponent v then
        \<lparr>sign = sign v, digits = digits v @ replicate (nat (exponent v - e)) 0, exponent = e\<rparr>
      else
        let n = int (length (digits v)) + exponent v - e;
            ds = (if n < 0 then [1] else digits v);
            k = (if n < 0 then 0 else nat n);
            changed = round_half_up ds k;
            c0 = (if take k ds = [] then [0] else take k ds);
            c = (if changed = 1 then digits_of (coeff c0 + 1) else c0)
        in \<lparr>sign = sign v, digits = c, exponent = e\<rparr>)"

datatype error =
    InvalidOperation   \<comment> \<open>\<open>decimal.InvalidOperation\<close>\<close>
  | IllegalArgument    \<comment> \<open>raised by \<open>check_precision_scale\<close> and by \<open>NamedReference.field\<close>\<close>
  | ValueError         \<comment> \<open>the \<open>ValueError\<close> of \<open>Decimal.__init__\<close>\<close>
  | TypeError          \<comment> \<open>calling an object that is not callable, negating a string\<close>

text \<open>
  \<open>Decimal.quantize(exp, rounding=ROUND_HALF_UP)\<close> in the default context, for a finite
  decimal and the exponent \<open>e\<close> of \<open>exp\<close>. The final \<open>_fix\<close> changes nothing once the
  checks before it have passed (\<open>clamp\<close> is 0).
\<close>

definition quantize :: "pydecimal \<Rightarrow> int \<Rightarrow> error + pydecimal" where
  "quantize v e =
     (if \<not> (ctx_Etiny \<le> e \<and> e \<le> ctx_Emax) then Inl InvalidOperation
      else if is_zero v then Inr \<lparr>sign = sign v, digits = [0], exponent = e\<rparr>
      else if ctx_Emax < adjusted v then Inl InvalidOperation
      else if ctx_prec < adjusted v - e + 1 then Inl InvalidOperation
      else let ans = rescale v e
           in if ctx_Emax < adjusted ans then Inl InvalidOperation
              else if ctx_prec < int (length (digits ans)) then Inl InvalidOperation
              else Inr ans)"



subsection \<open>\<open>decimal.Decimal(str)\<close>\<close>

text \<open>
  The constructor strips white space, removes underscores and matches, without regard to
  case: an optional sign; then either a number (digits, an optional point with digits, an
  optional \<open>E\<close> with an optional sign and one digit at least, the number starting with a
  digit or with a point and a digit), or \<open>Inf\<close>, \<open>Infinity\<close>, \<open>NaN\<close> or \<open>sNaN\<close>
  with digits. ASCII only.
\<close>

definition is_digit :: "char \<Rightarrow> bool" where
  "is_digit c = (48 \<le> (of_char c :: nat) \<and> (of_char c :: nat) \<le> 57)"

definition digit_val :: "char \<Rightarrow> nat" where
  "digit_val c = of_char c - 48"

definition is_space :: "char \<Rightarrow> bool" where
  "is_space c = (let n = (of_char c :: nat) in (9 \<le> n \<and> n \<le> 13) \<or> (28 \<le> n \<and> n \<le> 32))"

definition strip :: "string \<Rightarrow> string" where
  "strip s = rev (dropWhile is_space (rev (dropWhile is_space s)))"

definition lower :: "char \<Rightarrow> char" where
  "lower c = (let n = (of_char c :: nat) in if 65 \<le> n \<and> n \<le> 90 then char_of (n + 32) else c)"

text \<open>
  A \<open>decimal.Decimal\<close>: a finite one, an infinity with its sign, or a quiet or a
  signaling NaN with its sign and the digits of its payload (none when there is no payload).
\<close>

datatype pyvalue =
    Finite pydecimal
  | Infinity nat
  | NaN nat "nat list"
  | sNaN nat "nat list"

fun split_sign :: "string \<Rightarrow> nat \<times> string" where
  "split_sign (c # cs) =
     (if c = CHR ''-'' then (1, cs) else if c = CHR ''+'' then (0, cs) else (0, c # cs))"
| "split_sign [] = (0, [])"

text \<open>The exponent part: nothing, or \<open>E\<close>, an optional sign and at least one digit.\<close>

definition parse_exp :: "string \<Rightarrow> int option" where
  "parse_exp r =
     (case r of
        [] \<Rightarrow> Some 0
      | c # t \<Rightarrow>
          if lower c \<noteq> CHR ''e'' then None
          else let (sg, ds) = split_sign t
               in if ds = [] \<or> \<not> list_all is_digit ds then None
                  else Some ((if sg = 1 then - 1 else 1) * int (coeff (map digit_val ds))))"

text \<open>
  The payload of a NaN is \<open>str(int(diag or '0')).lstrip('0')\<close>: its digits without the
  leading zeros.
\<close>

definition special_of :: "nat \<Rightarrow> string \<Rightarrow> pyvalue option" where
  "special_of sg r =
     (let l = map lower r
      in if l = ''inf'' \<or> l = ''infinity'' then Some (Infinity sg)
         else if take 3 l = ''nan'' \<and> list_all is_digit (drop 3 l)
           then Some (NaN sg (dropWhile (\<lambda>d. d = 0) (map digit_val (drop 3 l))))
         else if take 4 l = ''snan'' \<and> list_all is_digit (drop 4 l)
           then Some (sNaN sg (dropWhile (\<lambda>d. d = 0) (map digit_val (drop 4 l))))
         else None)"

text \<open>\<open>decimal.Decimal(s)\<close>; \<open>None\<close> when it raises \<open>InvalidOperation\<close>.\<close>

definition PyDecimal :: "string \<Rightarrow> pyvalue option" where
  "PyDecimal s =
     (let (sg, r0) = split_sign (filter (\<lambda>c. c \<noteq> CHR ''_'') (strip s));
          ip = takeWhile is_digit r0;
          r1 = dropWhile is_digit r0;
          fp = (case r1 of c # t \<Rightarrow> if c = CHR ''.'' then takeWhile is_digit t else [] | [] \<Rightarrow> []);
          r2 = (case r1 of c # t \<Rightarrow> if c = CHR ''.'' then dropWhile is_digit t else r1 | [] \<Rightarrow> [])
      in case special_of sg r0 of
           Some v \<Rightarrow> Some v
         | None \<Rightarrow>
             if ip = [] \<and> fp = [] then None
             else case parse_exp r2 of
                    None \<Rightarrow> None
                  | Some ex \<Rightarrow>
                      Some (Finite \<lparr>sign = sg,
                                    digits = digits_of (coeff (map digit_val (ip @ fp))),
                                    exponent = ex - int (length fp)\<rparr>))"

text \<open>
  What \<open>Decimal.__init__\<close> asks of a \<open>decimal.Decimal\<close>, finite or not:
  \<open>as_tuple().digits\<close>; \<open>-as_tuple().exponent\<close>, where the exponent of an infinity or a
  NaN is a string, which cannot be negated; \<open>adjusted()\<close>, 0 for an infinity or a NaN;
  and \<open>quantize\<close>, which refuses an infinity and a signaling NaN and returns a quiet NaN
  with its payload cut to the last \<open>prec\<close> digits.
\<close>

definition tuple_digits :: "pyvalue \<Rightarrow> nat list" where
  "tuple_digits v =
     (case v of Finite f \<Rightarrow> digits f | Infinity sg \<Rightarrow> [0] | NaN sg pl \<Rightarrow> pl | sNaN sg pl \<Rightarrow> pl)"

definition negated_exponent :: "pyvalue \<Rightarrow> error + int" where
  "negated_exponent v = (case v of Finite f \<Rightarrow> Inr (- exponent f) | _ \<Rightarrow> Inl TypeError)"

definition value_adjusted :: "pyvalue \<Rightarrow> int" where
  "value_adjusted v = (case v of Finite f \<Rightarrow> adjusted f | _ \<Rightarrow> 0)"

definition fix_nan :: "nat list \<Rightarrow> nat list" where
  "fix_nan pl =
     (if nat ctx_prec < length pl
      then dropWhile (\<lambda>d. d = 0) (drop (length pl - nat ctx_prec) pl) else pl)"

definition value_quantize :: "pyvalue \<Rightarrow> int \<Rightarrow> error + pyvalue" where
  "value_quantize v e =
     (case v of
        Finite f \<Rightarrow> (case quantize f e of Inl err \<Rightarrow> Inl err | Inr q \<Rightarrow> Inr (Finite q))
      | sNaN sg pl \<Rightarrow> Inl InvalidOperation
      | NaN sg pl \<Rightarrow> Inr (NaN sg (fix_nan pl))
      | Infinity sg \<Rightarrow> Inl InvalidOperation)"


section \<open>\<open>gravitino.api.decimal.Decimal\<close>\<close>

record decimal =
  d_value :: pyvalue
  d_precision :: int
  d_scale :: int

text \<open>
  \<open>Decimal.__init__\<close> on a \<open>decimal.Decimal\<close>. The rules of
  \<open>Types.DecimalType.check_precision_scale\<close> are not part of this file: \<open>chk p s\<close> says
  that they accept precision \<open>p\<close> and scale \<open>s\<close>. The steps are those of the source, in
  its order: the precision when omitted, the scale when omitted, the checker, the comparison
  of the precision with \<open>adjusted() + 1\<close>, and the rounding.
\<close>

definition Decimal_init ::
  "(int \<Rightarrow> int \<Rightarrow> bool) \<Rightarrow> pyvalue \<Rightarrow> int option \<Rightarrow> int option \<Rightarrow> error + decimal" where
  "Decimal_init chk v precision scale =
     (let p = (case precision of None \<Rightarrow> int (length (tuple_digits v)) | Some p \<Rightarrow> p)
      in case (case scale of None \<Rightarrow> negated_exponent v | Some s \<Rightarrow> Inr s) of
           Inl e \<Rightarrow> Inl e
         | Inr s \<Rightarrow>
             if \<not> chk p s then Inl IllegalArgument
             else if p < value_adjusted v + 1 then Inl ValueError
             else case value_quantize v (- s) of
                    Inl e \<Rightarrow> Inl e
                  | Inr q \<Rightarrow> Inr \<lparr>d_value = q, d_precision = p, d_scale = s\<rparr>)"

datatype value_arg = Str string | Dec pyvalue

text \<open>\<open>Decimal.of(value, precision, scale)\<close>, a string converted first.\<close>

definition Decimal_of ::
  "(int \<Rightarrow> int \<Rightarrow> bool) \<Rightarrow> value_arg \<Rightarrow> int option \<Rightarrow> int option \<Rightarrow> error + decimal" where
  "Decimal_of chk val precision scale =
     (case val of
        Dec v \<Rightarrow> Decimal_init chk v precision scale
      | Str s \<Rightarrow>
          (case PyDecimal s of
             None \<Rightarrow> Inl InvalidOperation
           | Some v \<Rightarrow> Decimal_init chk v precision scale))"

text \<open>
  \<open>Decimal.__eq__\<close>: the other object is a \<open>Decimal\<close> or something else. The values are
  compared only when the scales are equal.
\<close>

datatype other = ADecimal decimal | NotADecimal



section \<open>\<open>gravitino.api.expressions.transforms\<close>\<close>

subsection \<open>The collaborators: field references and literals\<close>

datatype named_reference = FieldReference "string list"

fun field_name :: "named_reference \<Rightarrow> string list" where
  "field_name (FieldReference p) = p"

text \<open>A field name handed to a factory: a Python \<open>str\<close> or a list of \<open>str\<close>.\<close>

datatype field_arg = Name string | Path "string list"

text \<open>
  Modelled from the spec: \<open>NamedReference.field\<close>, which is not in this file. It
  ``builds a field reference from a single name or an ordered sequence of names; fails
  with InvalidArgument on malformed paths'', a reference being ``an ordered sequence of
  string path segments'' with ``equality/hash by path''. Which paths are malformed the
  spec does not say: \<open>malformed\<close> is a parameter.
\<close>

definition NamedReference_field ::
  "(string list \<Rightarrow> bool) \<Rightarrow> field_arg \<Rightarrow> error + named_reference" where
  "NamedReference_field malformed a =
     (let p = (case a of Name s \<Rightarrow> [s] | Path ss \<Rightarrow> ss)
      in if malformed p then Inl IllegalArgument else Inr (FieldReference p))"

text \<open>
  The objects handed to transforms as arguments: Python integers, booleans and strings,
  field references, literals, and transforms, which are expressions themselves
  (\<open>class Transform(Expression, ABC)\<close>). The transform classes: one constructor for each
  class, with the attributes its \<open>__init__\<close> stores.
\<close>

datatype partition = ListPartition | RangePartition

datatype expression =
    PyInt int
  | PyBool bool
  | PyStr string
  | Reference named_reference
  | Literal expression
  | TransformArg transform
and transform =
    IdentityTransform named_reference
  | YearTransform named_reference
  | MonthTransform named_reference
  | DayTransform named_reference
  | HourTransform named_reference
  | BucketTransform expression "named_reference list"
  | TruncateTransform expression named_reference
  | ListTransform "named_reference list" "partition list"
  | RangeTransform named_reference "partition list"
  | ApplyTransform string "expression list"

text \<open>
  Modelled from the spec: \<open>Literals.integer_literal\<close>, which is not in this file:
  ``Literal constructors: produce integer-literal expression values from plain
  integers''. Python does not check what it is given.
\<close>

definition integer_literal :: "expression \<Rightarrow> expression" where
  "integer_literal v = Literal v"

subsection \<open>The transform classes\<close>

text \<open>\<open>name()\<close>, with the constants \<open>NAME_OF_...\<close> of \<open>Transforms\<close>.\<close>

fun name :: "transform \<Rightarrow> string" where
  "name (IdentityTransform r) = ''identity''"
| "name (YearTransform r) = ''year''"
| "name (MonthTransform r) = ''month''"
| "name (DayTransform r) = ''day''"
| "name (HourTransform r) = ''hour''"
| "name (BucketTransform n fs) = ''bucket''"
| "name (TruncateTransform w f) = ''truncate''"
| "name (ListTransform fs ps) = ''list''"
| "name (RangeTransform f ps) = ''range''"
| "name (ApplyTransform nm args) = nm"

text \<open>The properties \<open>num_buckets\<close> and \<open>field_names\<close> of \<open>BucketTransform\<close>.\<close>

fun num_buckets :: "transform \<Rightarrow> expression option" where
  "num_buckets (BucketTransform n fs) = Some n"
| "num_buckets t = None"

fun field_names :: "transform \<Rightarrow> string list" where
  "field_names (BucketTransform n fs) = concat (map field_name fs)"
| "field_names t = []"

text \<open>
  \<open>arguments()\<close>. Python's \<open>str\<close> is the parameter \<open>py_str\<close>; \<open>BucketTransform\<close>
  wraps its \<open>num_buckets\<close> in a literal and takes the string of that.
\<close>

fun arguments :: "(expression \<Rightarrow> string) \<Rightarrow> transform \<Rightarrow> expression list" where
  "arguments py_str (IdentityTransform r) = [Reference r]"
| "arguments py_str (YearTransform r) = [Reference r]"
| "arguments py_str (MonthTransform r) = [Reference r]"
| "arguments py_str (DayTransform r) = [Reference r]"
| "arguments py_str (HourTransform r) = [Reference r]"
| "arguments py_str (BucketTransform n fs) =
     [PyStr (py_str (integer_literal n))] @ map PyStr (concat (map field_name fs))"
| "arguments py_str (TruncateTransform w f) = [w, Reference f]"
| "arguments py_str (ListTransform fs ps) = map Reference fs"
| "arguments py_str (RangeTransform f ps) = [Reference f]"
| "arguments py_str (ApplyTransform nm args) = args"

text \<open>
  \<open>t.assignments()\<close>. Looking the attribute up finds the entry of the instance before
  the function of the class: \<open>ListTransform.__init__\<close> and \<open>RangeTransform.__init__\<close>
  store the list of partitions under the name \<open>assignments\<close>, the other classes inherit
  \<open>Transform.assignments\<close>, which returns \<open>Partitions.EMPTY_PARTITIONS\<close>. Calling a list
  raises \<open>TypeError\<close>.
\<close>

datatype attribute = Method "partition list" | ListObject "partition list"

fun getattr_assignments :: "transform \<Rightarrow> attribute" where
  "getattr_assignments (ListTransform fs ps) = ListObject ps"
| "getattr_assignments (RangeTransform f ps) = ListObject ps"
| "getattr_assignments t = Method []"

fun call :: "attribute \<Rightarrow> error + partition list" where
  "call (Method result) = Inr result"
| "call (ListObject ps) = Inl TypeError"

definition assignments :: "transform \<Rightarrow> error + partition list" where
  "assignments t = call (getattr_assignments t)"

text \<open>
  Python's \<open>==\<close> on these objects, which runs the \<open>__eq__\<close> of the left operand. An
  integer and a boolean are compared as numbers (\<open>1 == True\<close>); a string is equal to an
  equal string only; objects of different kinds are not equal. The \<open>__eq__\<close> of each
  transform class asks that the other object be an instance of the same class (no class here
  derives from another concrete one), then compares the fields named in the source, each
  with its own \<open>==\<close>; lists are compared by length and then element by element.

  Modelled from the spec: the \<open>==\<close> of field references and of literals, whose classes
  are not in this file: a reference has ``equality/hash by path'', and a literal is an
  ``integer-literal expression value'', equal to a literal of an equal value.
\<close>

fun expr_eq :: "expression \<Rightarrow> expression \<Rightarrow> bool"
  and transform_eq :: "transform \<Rightarrow> transform \<Rightarrow> bool"
  and list_eq :: "expression list \<Rightarrow> expression list \<Rightarrow> bool" where
  "expr_eq (PyInt i) other =
     (case other of PyInt j \<Rightarrow> i = j | PyBool c \<Rightarrow> i = (if c then 1 else 0) | _ \<Rightarrow> False)"
| "expr_eq (PyBool b) other =
     (case other of PyInt j \<Rightarrow> (if b then 1 else 0) = j | PyBool c \<Rightarrow> b = c | _ \<Rightarrow> False)"
| "expr_eq (PyStr s) other = (case other of PyStr s' \<Rightarrow> s = s' | _ \<Rightarrow> False)"
| "expr_eq (Reference r) other = (case other of Reference r' \<Rightarrow> r = r' | _ \<Rightarrow> False)"
| "expr_eq (Literal v) other = (case other of Literal v' \<Rightarrow> expr_eq v v' | _ \<Rightarrow> False)"
| "expr_eq (TransformArg t) other =
     (case other of TransformArg t' \<Rightarrow> transform_eq t t' | _ \<Rightarrow> False)"
| "transform_eq (IdentityTransform r) other =
     (case other of IdentityTransform r' \<Rightarrow> r = r' | _ \<Rightarrow> False)"
| "transform_eq (YearTransform r) other =
     (case other of YearTransform r' \<Rightarrow> r = r' | _ \<Rightarrow> False)"
| "transform_eq (MonthTransform r) other =
     (case other of MonthTransform r' \<Rightarrow> r = r' | _ \<Rightarrow> False)"
| "transform_eq (DayTransform r) other =
     (case other of DayTransform r' \<Rightarrow> r = r' | _ \<Rightarrow> False)"
| "transform_eq (HourTransform r) other =
     (case other of HourTransform r' \<Rightarrow> r = r' | _ \<Rightarrow> False)"
| "transform_eq (BucketTransform n fs) other =
     (case other of
        BucketTransform n' fs' \<Rightarrow>
          expr_eq n n' \<and> field_names (BucketTransform n fs) = field_names (BucketTransform n' fs')
      | _ \<Rightarrow> False)"
| "transform_eq (TruncateTransform w f) other =
     (case other of TruncateTransform w' f' \<Rightarrow> expr_eq w w' \<and> f = f' | _ \<Rightarrow> False)"
| "transform_eq (ListTransform fs ps) other =
     (case other of ListTransform fs' ps' \<Rightarrow> fs = fs' | _ \<Rightarrow> False)"
| "transform_eq (RangeTransform f ps) other =
     (case other of RangeTransform f' ps' \<Rightarrow> f = f' | _ \<Rightarrow> False)"
| "transform_eq (ApplyTransform nm args) other =
     (case other of ApplyTransform nm' args' \<Rightarrow> nm = nm' \<and> list_eq args args' | _ \<Rightarrow> False)"
| "list_eq [] ys = (ys = [])"
| "list_eq (x # xs) ys = (case ys of [] \<Rightarrow> False | y # ys' \<Rightarrow> expr_eq x y \<and> list_eq xs ys')"

text \<open>
  \<open>__hash__\<close> of each class: Python's \<open>hash\<close>, here the parameter \<open>h\<close>, of an object
  or of a tuple.
\<close>

datatype hashed = Obj expression | Tuple "hashed list"

fun transform_hash :: "(hashed \<Rightarrow> 'h) \<Rightarrow> (expression \<Rightarrow> string) \<Rightarrow> transform \<Rightarrow> 'h" where
  "transform_hash h py_str (IdentityTransform r) = h (Obj (Reference r))"
| "transform_hash h py_str (YearTransform r) = h (Obj (Reference r))"
| "transform_hash h py_str (MonthTransform r) = h (Obj (Reference r))"
| "transform_hash h py_str (DayTransform r) = h (Obj (Reference r))"
| "transform_hash h py_str (HourTransform r) = h (Obj (Reference r))"
| "transform_hash h py_str (BucketTransform n fs) =
     h (Tuple (Obj n # map (\<lambda>f. Obj (PyStr (py_str (Reference f)))) fs))"
| "transform_hash h py_str (TruncateTransform w f) = h (Tuple [Obj w, Obj (Reference f)])"
| "transform_hash h py_str (ListTransform fs ps) = h (Tuple (map (\<lambda>f. Obj (Reference f)) fs))"
| "transform_hash h py_str (RangeTransform f ps) = h (Obj (Reference f))"
| "transform_hash h py_str (ApplyTransform nm args) =
     h (Tuple [Obj (PyStr (name (ApplyTransform nm args))),
               Tuple (map Obj (arguments py_str (ApplyTransform nm args)))])"

subsection \<open>The factory \<open>Transforms\<close>\<close>

text \<open>
  \<open>field\<close> stands for \<open>NamedReference.field\<close>. The factories for one field replace a
  string by the list holding it before they call \<open>field\<close>; \<open>bucket\<close>, \<open>list\<close> and
  \<open>range\<close> call it on what they are given.
\<close>

definition single_to_list :: "field_arg \<Rightarrow> field_arg" where
  "single_to_list a = (case a of Name s \<Rightarrow> Path [s] | Path ss \<Rightarrow> Path ss)"

definition Transforms_identity ::
  "(field_arg \<Rightarrow> error + named_reference) \<Rightarrow> field_arg \<Rightarrow> error + transform" where
  "Transforms_identity field a =
     (case field (single_to_list a) of Inl e \<Rightarrow> Inl e | Inr r \<Rightarrow> Inr (IdentityTransform r))"

definition Transforms_year ::
  "(field_arg \<Rightarrow> error + named_reference) \<Rightarrow> field_arg \<Rightarrow> error + transform" where
  "Transforms_year field a =
     (case field (single_to_list a) of Inl e \<Rightarrow> Inl e | Inr r \<Rightarrow> Inr (YearTransform r))"

definition Transforms_month ::
  "(field_arg \<Rightarrow> error + named_reference) \<Rightarrow> field_arg \<Rightarrow> error + transform" where
  "Transforms_month field a =
     (case field (single_to_list a) of Inl e \<Rightarrow> Inl e | Inr r \<Rightarrow> Inr (MonthTransform r))"

definition Transforms_day ::
  "(field_arg \<Rightarrow> error + named_reference) \<Rightarrow> field_arg \<Rightarrow> error + transform" where
  "Transforms_day field a =
     (case field (single_to_list a) of Inl e \<Rightarrow> Inl e | Inr r \<Rightarrow> Inr (DayTransform r))"

definition Transforms_hour ::
  "(field_arg \<Rightarrow> error + named_reference) \<Rightarrow> field_arg \<Rightarrow> error + transform" where
  "Transforms_hour field a =
     (case field (single_to_list a) of Inl e \<Rightarrow> Inl e | Inr r \<Rightarrow> Inr (HourTransform r))"

text \<open>\<open>[NamedReference.field(fn) for fn in field_names]\<close>: the first failure ends it.\<close>

fun fields_of ::
  "(field_arg \<Rightarrow> error + named_reference) \<Rightarrow> field_arg list \<Rightarrow> error + named_reference list" where
  "fields_of field [] = Inr []"
| "fields_of field (a # as) =
     (case field a of
        Inl e \<Rightarrow> Inl e
      | Inr r \<Rightarrow> (case fields_of field as of Inl e \<Rightarrow> Inl e | Inr rs \<Rightarrow> Inr (r # rs)))"

definition Transforms_bucket ::
  "(field_arg \<Rightarrow> error + named_reference) \<Rightarrow> int \<Rightarrow> field_arg list \<Rightarrow> error + transform" where
  "Transforms_bucket field n as =
     (case fields_of field as of
        Inl e \<Rightarrow> Inl e
      | Inr fs \<Rightarrow> Inr (BucketTransform (integer_literal (PyInt n)) fs))"

definition Transforms_list ::
  "(field_arg \<Rightarrow> error + named_reference) \<Rightarrow> field_arg list \<Rightarrow> partition list option
     \<Rightarrow> error + transform" where
  "Transforms_list field as ps =
     (let ps' = (case ps of None \<Rightarrow> [] | Some l \<Rightarrow> l)
      in case fields_of field as of Inl e \<Rightarrow> Inl e | Inr fs \<Rightarrow> Inr (ListTransform fs ps'))"

definition Transforms_range ::
  "(field_arg \<Rightarrow> error + named_reference) \<Rightarrow> field_arg \<Rightarrow> partition list option
     \<Rightarrow> error + transform" where
  "Transforms_range field a ps =
     (let ps' = (case ps of None \<Rightarrow> [] | Some l \<Rightarrow> l)
      in case field a of Inl e \<Rightarrow> Inl e | Inr r \<Rightarrow> Inr (RangeTransform r ps'))"

definition Transforms_truncate ::
  "(field_arg \<Rightarrow> error + named_reference) \<Rightarrow> int \<Rightarrow> field_arg \<Rightarrow> error + transform" where
  "Transforms_truncate field w a =
     (case field (single_to_list a) of
        Inl e \<Rightarrow> Inl e
      | Inr r \<Rightarrow> Inr (TruncateTransform (integer_literal (PyInt w)) r))"

definition Transforms_apply :: "string \<Rightarrow> expression list \<Rightarrow> transform" where
  "Transforms_apply nm args = ApplyTransform nm args"

text \<open>The class of a transform, to speak of transforms of different variants.\<close>

datatype variant =
  Identity | Year | Month | Day | Hour | Bucket | Truncate | List_variant | Range | Apply

fun variant_of :: "transform \<Rightarrow> variant" where
  "variant_of (IdentityTransform r) = Identity"
| "variant_of (YearTransform r) = Year"
| "variant_of (MonthTransform r) = Month"
| "variant_of (DayTransform r) = Day"
| "variant_of (HourTransform r) = Hour"
| "variant_of (BucketTransform n fs) = Bucket"
| "variant_of (TruncateTransform w f) = Truncate"
| "variant_of (ListTransform fs ps) = List_variant"
| "variant_of (RangeTransform f ps) = Range"
| "variant_of (ApplyTransform nm args) = Apply"

section \<open>What the claims speak of\<close>

text \<open>
  The invariant of a finite \<open>decimal.Decimal\<close>: a sign bit, decimal digits, at least one,
  and no leading zero except in \<open>(0,)\<close>.
\<close>

definition valid :: "pydecimal \<Rightarrow> bool" where
  "valid v =
     (sign v \<le> 1 \<and> digits v \<noteq> [] \<and> list_all (\<lambda>d. d < 10) (digits v) \<and>
      (hd (digits v) = 0 \<longrightarrow> digits v = [0]))"

text \<open>The absolute value of a decimal, as a rational number.\<close>

definition magnitude :: "pydecimal \<Rightarrow> rat" where
  "magnitude v = of_nat (coeff (digits v)) * 10 powi exponent v"



text \<open>
  The integer part of the absolute value, and the number of digits it needs: none for 0,
  one for 1 to 9, two for 10 to 99, and so on.
\<close>

definition int_part :: "pydecimal \<Rightarrow> nat" where
  "int_part v =
     (if 0 \<le> exponent v then coeff (digits v) * 10 ^ nat (exponent v)
      else coeff (digits v) div 10 ^ nat (- exponent v))"

fun ndigits :: "nat \<Rightarrow> nat" where
  "ndigits n = (if n = 0 then 0 else Suc (ndigits (n div 10)))"

declare ndigits.simps [simp del]

definition int_part_digits :: "pyvalue \<Rightarrow> nat" where
  "int_part_digits v = (case v of Finite f \<Rightarrow> ndigits (int_part f) | _ \<Rightarrow> 0)"

text \<open>The finite decimal that a value handed to \<open>Decimal.of\<close> denotes, if it denotes one.\<close>

definition numeral_of :: "value_arg \<Rightarrow> pydecimal option" where
  "numeral_of val =
     (case val of
        Dec v \<Rightarrow> (case v of Finite f \<Rightarrow> Some f | _ \<Rightarrow> None)
      | Str s \<Rightarrow> (case PyDecimal s of Some (Finite f) \<Rightarrow> Some f | _ \<Rightarrow> None))"

text \<open>
  What \<open>Decimal.of\<close> can be handed: any string, or a \<open>decimal.Decimal\<close>, which, when
  finite, satisfies the invariant of its class.
\<close>

definition well_formed :: "value_arg \<Rightarrow> bool" where
  "well_formed val = (case val of Dec (Finite f) \<Rightarrow> valid f | _ \<Rightarrow> True)"

text \<open>
  Modelled from the spec: \<open>Types.DecimalType.check_precision_scale\<close>, which is not in
  this file. The spec leaves its bounds to the type system and says of a \<open>Decimal\<close> only
  that the precision is a ``positive integer'' and the scale a ``non-negative integer,
  \<open>\<le>\<close> precision''. This instance of the checker accepts exactly those.
\<close>

definition check_precision_scale :: "int \<Rightarrow> int \<Rightarrow> bool" where
  "check_precision_scale p s = (1 \<le> p \<and> 0 \<le> s \<and> s \<le> p)"

section \<open>Concrete values\<close>

lemma parse_9_5:
  "PyDecimal ''9.5'' = Some (Finite \<lparr>sign = 0, digits = [9, 5], exponent = - 1\<rparr>)"
  by code_simp

lemma quantize_9_5:
  "quantize \<lparr>sign = 0, digits = [9, 5], exponent = - 1\<rparr> 0 =
     Inr \<lparr>sign = 0, digits = [1, 0], exponent = 0\<rparr>"
  by code_simp

lemma int_part_digits_10:
  "int_part_digits (Finite \<lparr>sign = 0, digits = [1, 0], exponent = 0\<rparr>) = 2"
  by code_simp

lemma of_9_5:
  "chk 1 0 \<Longrightarrow>
   Decimal_of chk (Str ''9.5'') (Some 1) (Some 0) =
     Inr \<lparr>d_value = Finite \<lparr>sign = 0, digits = [1, 0], exponent = 0\<rparr>, d_precision = 1, d_scale = 0\<rparr>"
  using quantize_9_5
  by (simp add: Decimal_of_def parse_9_5 Decimal_init_def value_adjusted_def adjusted_def
      value_quantize_def)




lemma digits_of_12345: "digits_of 12345 = [1, 2, 3, 4, 5]"
  by (simp add: digits_of.simps)

lemma parse_123_45:
  "PyDecimal ''123.45'' =
     Some (Finite \<lparr>sign = 0, digits = [1, 2, 3, 4, 5], exponent = - 2\<rparr>)"
  by (simp add: PyDecimal_def strip_def is_space_def is_digit_def special_of_def lower_def
      parse_exp_def coeff_def digit_val_def digits_of_12345 Let_def)

lemma quantize_123_45:
  "quantize \<lparr>sign = 0, digits = [1, 2, 3, 4, 5], exponent = - 2\<rparr> (- 2) =
     Inr \<lparr>sign = 0, digits = [1, 2, 3, 4, 5], exponent = - 2\<rparr>"
  by code_simp

lemma of_123_45:
  "chk 5 2 \<Longrightarrow>
   Decimal_of chk (Str ''123.45'') None None =
     Inr \<lparr>d_value = Finite \<lparr>sign = 0, digits = [1, 2, 3, 4, 5], exponent = - 2\<rparr>,
          d_precision = 5, d_scale = 2\<rparr>"
  using quantize_123_45
  by (simp add: Decimal_of_def parse_123_45 Decimal_init_def value_adjusted_def adjusted_def
      value_quantize_def tuple_digits_def negated_exponent_def)

lemma digits_of_999: "digits_of 999 = [9, 9, 9]"
  by (simp add: digits_of.simps)

lemma parse_999:
  "PyDecimal ''999'' = Some (Finite \<lparr>sign = 0, digits = [9, 9, 9], exponent = 0\<rparr>)"
  by (simp add: PyDecimal_def strip_def is_space_def is_digit_def special_of_def lower_def
      parse_exp_def coeff_def digit_val_def digits_of_999 Let_def)

lemma int_part_digits_999:
  "int_part_digits (Finite \<lparr>sign = 0, digits = [9, 9, 9], exponent = 0\<rparr>) = 3"
  by (simp add: int_part_digits_def int_part_def coeff_def ndigits.simps)

lemma digits_of_1005: "digits_of 1005 = [1, 0, 0, 5]"
  by (simp add: digits_of.simps)

lemma parse_1_005:
  "PyDecimal ''1.005'' = Some (Finite \<lparr>sign = 0, digits = [1, 0, 0, 5], exponent = - 3\<rparr>)"
  by (simp add: PyDecimal_def strip_def is_space_def is_digit_def special_of_def lower_def
      parse_exp_def coeff_def digit_val_def digits_of_1005 Let_def)

lemma quantize_1_005:
  "quantize \<lparr>sign = 0, digits = [1, 0, 0, 5], exponent = - 3\<rparr> (- 2) =
     Inr \<lparr>sign = 0, digits = [1, 0, 1], exponent = - 2\<rparr>"
  by code_simp

lemma of_1_005:
  "chk 4 2 \<Longrightarrow>
   Decimal_of chk (Str ''1.005'') (Some 4) (Some 2) =
     Inr \<lparr>d_value = Finite \<lparr>sign = 0, digits = [1, 0, 1], exponent = - 2\<rparr>,
          d_precision = 4, d_scale = 2\<rparr>"
  using quantize_1_005
  by (simp add: Decimal_of_def parse_1_005 Decimal_init_def value_adjusted_def adjusted_def
      value_quantize_def)

section \<open>Auxiliary facts\<close>








lemma Decimal_of_numeral:
  "numeral_of val = Some v \<Longrightarrow> Decimal_of chk val pr sc = Decimal_init chk (Finite v) pr sc"
  by (auto simp add: numeral_of_def Decimal_of_def
      split: value_arg.splits option.splits pyvalue.splits)

lemma coeff_append: "coeff (xs @ [x]) = 10 * coeff xs + x"
  by (simp add: coeff_def)

lemma coeff_lt: "list_all (\<lambda>d. d < 10) ds \<Longrightarrow> coeff ds < 10 ^ length ds"
  by (induction ds rule: rev_induct) (auto simp add: coeff_append coeff_def)

lemma ndigits_le: "n < 10 ^ k \<Longrightarrow> ndigits n \<le> k"
proof (induction k arbitrary: n)
  case 0
  then show ?case by (simp add: ndigits.simps)
next
  case (Suc k)
  have "n div 10 < 10 ^ k"
    using Suc.prems by (simp add: less_mult_imp_div_less mult.commute)
  then have "ndigits (n div 10) \<le> k"
    by (rule Suc.IH)
  then show ?case
    by (subst ndigits.simps) simp
qed

lemma int_part_digits_le:
  assumes "valid v"
  shows "int (int_part_digits (Finite v)) \<le> max 0 (adjusted v + 1)"
proof -
  let ?n = "length (digits v)"
  have c: "coeff (digits v) < 10 ^ ?n"
    using assms by (simp add: valid_def coeff_lt)
  show ?thesis
  proof (cases "0 \<le> exponent v")
    case True
    have "coeff (digits v) * 10 ^ nat (exponent v) < 10 ^ (?n + nat (exponent v))"
      using c by (simp add: power_add)
    then have "ndigits (int_part v) \<le> ?n + nat (exponent v)"
      using True by (intro ndigits_le) (simp add: int_part_def)
    then show ?thesis
      using True by (simp add: int_part_digits_def adjusted_def)
  next
    case False
    define k where "k = nat (- exponent v)"
    have ip: "int_part v = coeff (digits v) div 10 ^ k"
      using False by (simp add: int_part_def k_def)
    show ?thesis
    proof (cases "k \<le> ?n")
      case True
      have "coeff (digits v) < 10 ^ (?n - k) * 10 ^ k"
        using c True by (simp flip: power_add)
      then have "int_part v < 10 ^ (?n - k)"
        by (simp add: ip less_mult_imp_div_less)
      then have "ndigits (int_part v) \<le> ?n - k"
        by (rule ndigits_le)
      then show ?thesis
        using True False by (simp add: int_part_digits_def adjusted_def k_def)
    next
      case False
      have "(10::nat) ^ ?n \<le> 10 ^ k"
        using False by (intro power_increasing) simp_all
      then have "coeff (digits v) < 10 ^ k"
        using c by (rule less_le_trans [rotated])
      then have "int_part v = 0"
        unfolding ip by (rule div_less)
      then show ?thesis
        by (simp add: int_part_digits_def ndigits.simps)
    qed
  qed
qed

lemma init_refused:
  assumes "valid v" and "0 \<le> p" and "p < int (int_part_digits (Finite v))"
  shows "Decimal_init chk (Finite v) (Some p) sc =
           (if chk p (case sc of None \<Rightarrow> - exponent v | Some s \<Rightarrow> s)
            then Inl ValueError else Inl IllegalArgument)"
proof -
  have "p < adjusted v + 1"
    using int_part_digits_le [OF assms(1)] assms(2,3) by simp
  then show ?thesis
    by (cases sc) (simp_all add: Decimal_init_def value_adjusted_def negated_exponent_def)
qed

lemma coeff_app: "coeff (xs @ ys) = coeff xs * 10 ^ length ys + coeff ys"
  by (induction ys rule: rev_induct)
     (simp_all add: coeff_append flip: append_assoc, simp add: coeff_def)

lemma coeff_zeros: "coeff (replicate k 0) = 0"
  by (induction k) (simp_all add: coeff_def)

lemma coeff_digits_of: "coeff (digits_of n) = n"
  by (induction n rule: digits_of.induct)
     (subst digits_of.simps, simp add: coeff_append, simp add: coeff_def)

lemma half_up_div:
  "0 < b \<Longrightarrow> \<lfloor>(of_nat a :: rat) / of_nat b + 1 / 2\<rfloor> = int ((2 * a + b) div (2 * b))"
proof -
  assume b: "0 < b"
  have "(of_nat a :: rat) / of_nat b + 1 / 2 = of_nat (2 * a + b) / of_nat (2 * b)"
    using b by (simp add: field_simps)
  then show ?thesis
    by (simp only: floor_divide_of_nat_eq)
qed

lemma half_up_nat:
  "r < P \<Longrightarrow> (2 * (q * P + r) + P) div (2 * P) = q + (if P \<le> 2 * r then 1 else (0::nat))"
  by (rule div_nat_eqI) (auto simp add: algebra_simps)

lemma half_up_whole: "\<lfloor>(of_nat n :: rat) + 1 / 2\<rfloor> = int n"
  by (rule floor_unique) simp_all

lemma scaled_magnitude_pad:
  assumes "e \<le> exponent v"
  shows "magnitude v * 10 powi (- e) = of_nat (coeff (digits v) * 10 ^ nat (exponent v - e))"
proof -
  have "(10::rat) powi exponent v * 10 powi (- e) = 10 powi (exponent v - e)"
    using power_int_add [of "10::rat" "exponent v" "- e"] by simp
  also have "\<dots> = 10 ^ nat (exponent v - e)"
    using assms by (simp add: power_int_def)
  finally show ?thesis
    by (simp add: magnitude_def mult.assoc)
qed

lemma scaled_magnitude_cut:
  assumes "exponent v < e"
  shows "magnitude v * 10 powi (- e) =
           of_nat (coeff (digits v)) / of_nat (10 ^ nat (e - exponent v))"
proof -
  have "(10::rat) powi exponent v * 10 powi (- e) = 10 powi (exponent v - e)"
    using power_int_add [of "10::rat" "exponent v" "- e"] by simp
  also have "\<dots> = 1 / 10 ^ nat (e - exponent v)"
    using assms by (simp add: power_int_def field_simps)
  finally show ?thesis
    by (simp add: magnitude_def mult.assoc)
qed

lemma coeff_Cons: "coeff (d # rest) = d * 10 ^ length rest + coeff rest"
  using coeff_app [of "[d]" rest] by (simp add: coeff_def)

lemma first_dropped_digit:
  assumes "list_all (\<lambda>x. x < 10) (d # rest)"
  shows "10 ^ length (d # rest) \<le> 2 * coeff (d # rest) \<longleftrightarrow> 5 \<le> d"
proof -
  define P :: nat where "P = 10 ^ length rest"
  have c: "coeff rest < P"
    using assms by (simp add: coeff_lt P_def)
  have eq: "coeff (d # rest) = d * P + coeff rest" "10 ^ length (d # rest) = 10 * P"
    by (simp_all add: coeff_Cons P_def)
  define X where "X = d * P"
  have "10 * P \<le> 2 * (X + coeff rest) \<longleftrightarrow> 5 \<le> d"
  proof (cases "5 \<le> d")
    case True
    then have "5 * P \<le> X"
      unfolding X_def by (rule mult_le_mono1)
    then have "10 * P \<le> 2 * (X + coeff rest)"
      by arith
    then show ?thesis
      using True by (simp only:)
  next
    case False
    then have "d \<le> 4"
      by simp
    then have "X \<le> 4 * P"
      unfolding X_def by (rule mult_le_mono1)
    then have "\<not> 10 * P \<le> 2 * (X + coeff rest)"
      using c by arith
    then show ?thesis
      using False by (simp only:)
  qed
  then show ?thesis
    by (simp only: eq X_def)
qed

lemma rescale_coeff:
  assumes "valid v"
  shows "int (coeff (digits (rescale v e))) = \<lfloor>magnitude v * 10 powi (- e) + 1 / 2\<rfloor>"
proof (cases "is_zero v")
  case True
  then show ?thesis
    using half_up_whole [of 0]
    by (simp add: rescale_def is_zero_def magnitude_def coeff_def)
next
  case nz: False
  let ?ds = "digits v"
  have small: "list_all (\<lambda>d. d < 10) ?ds"
    using assms by (simp add: valid_def)
  show ?thesis
  proof (cases "e \<le> exponent v")
    case True
    have "digits (rescale v e) = ?ds @ replicate (nat (exponent v - e)) 0"
      using nz True by (simp add: rescale_def)
    then have "coeff (digits (rescale v e)) = coeff ?ds * 10 ^ nat (exponent v - e)"
      by (simp add: coeff_app coeff_zeros)
    then show ?thesis
      by (simp only: scaled_magnitude_pad [OF True] half_up_whole)
  next
    case False
    then have lt: "exponent v < e"
      by simp
    define m where "m = nat (e - exponent v)"
    have m: "0 < m" "int m = e - exponent v"
      using lt by (simp_all add: m_def)
    have "\<lfloor>(of_nat (coeff ?ds) :: rat) / of_nat (10 ^ m) + 1 / 2\<rfloor> =
            int ((2 * coeff ?ds + 10 ^ m) div (2 * 10 ^ m))"
      by (rule half_up_div) simp
    then have rhs: "\<lfloor>magnitude v * 10 powi (- e) + 1 / 2\<rfloor> =
            int ((2 * coeff ?ds + 10 ^ m) div (2 * 10 ^ m))"
      by (simp only: scaled_magnitude_cut [OF lt] m_def)
    show ?thesis
    proof (cases "int (length ?ds) + exponent v - e < 0")
      case True
      have res: "digits (rescale v e) = [0]"
        using nz False True by (simp add: rescale_def round_half_up_def Let_def)
      have "Suc (length ?ds) \<le> m"
        using True m by linarith
      then have "(10::nat) ^ Suc (length ?ds) \<le> 10 ^ m"
        by (intro power_increasing) simp_all
      then have "10 * 10 ^ length ?ds \<le> (10::nat) ^ m"
        by (simp only: power_Suc)
      moreover have "coeff ?ds < 10 ^ length ?ds"
        using small by (rule coeff_lt)
      ultimately have "2 * coeff ?ds + 10 ^ m < 2 * 10 ^ m"
        by linarith
      then have "(2 * coeff ?ds + 10 ^ m) div (2 * 10 ^ m) = 0"
        by (rule div_less)
      then show ?thesis
        by (simp only: rhs res) (simp add: coeff_def)
    next
      case nneg: False
      define k where "k = nat (int (length ?ds) + exponent v - e)"
      have k: "k + m = length ?ds"
        using nneg m by (simp add: k_def)
      then have "drop k ?ds \<noteq> []"
        using m by simp
      then obtain d rest where dr: "drop k ?ds = d # rest"
        by (cases "drop k ?ds") simp_all
      have len_drop: "length (d # rest) = m"
        using k by (simp flip: dr)
      define q where "q = coeff (take k ?ds)"
      define r where "r = coeff (d # rest)"
      have "coeff ?ds = coeff (take k ?ds @ drop k ?ds)"
        by simp
      also have "\<dots> = coeff (take k ?ds) * 10 ^ length (drop k ?ds) + coeff (drop k ?ds)"
        by (rule coeff_app)
      finally have split: "coeff ?ds = q * 10 ^ m + r"
        by (simp only: dr len_drop q_def r_def)
      have "set (drop k ?ds) \<subseteq> set ?ds"
        by (rule set_drop_subset)
      then have digs: "list_all (\<lambda>x. x < 10) (d # rest)"
        using small unfolding dr [symmetric] list_all_iff by blast
      have r_lt: "r < 10 ^ m"
        using coeff_lt [OF digs] by (simp only: len_drop r_def)
      have half: "10 ^ m \<le> 2 * r \<longleftrightarrow> 5 \<le> d"
        using first_dropped_digit [OF digs] by (simp only: len_drop r_def)
      define c0 where "c0 = (if take k ?ds = [] then [0] else take k ?ds)"
      have c0: "coeff c0 = q"
        by (simp add: c0_def q_def coeff_def)
      have dg: "digits (rescale v e) = (if 5 \<le> d then digits_of (coeff c0 + 1) else c0)"
        using nz False nneg dr [unfolded k_def]
        by (simp add: rescale_def Let_def round_half_up_def k_def c0_def)
      have res: "coeff (digits (rescale v e)) = q + (if 5 \<le> d then 1 else 0)"
        by (cases "5 \<le> d") (simp_all add: dg coeff_digits_of c0)
      show ?thesis
        by (simp only: rhs split half_up_nat [OF r_lt] half res)
    qed
  qed
qed

lemma rescale_zero:
  "is_zero v \<Longrightarrow> rescale v e = \<lparr>sign = sign v, digits = [0], exponent = e\<rparr>"
  by (simp add: rescale_def)

lemma quantize_rescale: "quantize v e = Inr q \<Longrightarrow> q = rescale v e"
  by (auto simp add: quantize_def Let_def rescale_zero split: if_splits)

lemma rescale_fields: "exponent (rescale v e) = e \<and> sign (rescale v e) = sign v"
  by (simp add: rescale_def Let_def)

lemma init_finite:
  "Decimal_init chk (Finite v) pr sc = Inr d \<Longrightarrow>
   \<exists>q. d_value d = Finite q \<and> quantize v (- d_scale d) = Inr q"
  by (auto simp add: Decimal_init_def value_quantize_def Let_def negated_exponent_def
      split: if_splits sum.splits option.splits)

lemma digits_of_valid:
  "digits_of n \<noteq> [] \<and> list_all (\<lambda>d. d < 10) (digits_of n) \<and>
   (hd (digits_of n) = 0 \<longrightarrow> digits_of n = [0])"
proof (induction n rule: digits_of.induct)
  case (1 n)
  show ?case
  proof (cases "n < 10")
    case True
    then show ?thesis
      by (subst (1 2 3 4) digits_of.simps) simp
  next
    case False
    then have "n div 10 \<noteq> 0"
      by simp
    moreover have "coeff (digits_of (n div 10)) = n div 10"
      by (rule coeff_digits_of)
    ultimately have "digits_of (n div 10) \<noteq> [0]"
      by (auto simp add: coeff_def)
    then show ?thesis
      using 1 [OF False] False by (subst (1 2 3 4) digits_of.simps) (simp add: hd_append)
  qed
qed

lemma split_sign_le: "split_sign x = (sg, r) \<Longrightarrow> sg \<le> 1"
  by (cases x) (auto split: if_splits)

lemma special_of_not_finite: "special_of sg r \<noteq> Some (Finite v)"
  by (simp add: special_of_def Let_def)

lemma parse_valid: "PyDecimal s = Some (Finite v) \<Longrightarrow> valid v"
  by (auto simp add: PyDecimal_def Let_def valid_def digits_of_valid special_of_not_finite
      dest: split_sign_le split: prod.splits option.splits if_splits)

lemma numeral_valid: "numeral_of val = Some v \<Longrightarrow> well_formed val \<Longrightarrow> valid v"
  by (cases val)
     (auto simp add: well_formed_def numeral_of_def dest: parse_valid
       split: option.splits pyvalue.splits)

lemma field_single:
  "NamedReference_field mal (single_to_list a) = NamedReference_field mal a"
  by (cases a) (simp_all add: NamedReference_field_def single_to_list_def)

lemma fields_of_single:
  "fields_of (NamedReference_field mal) (map single_to_list as) =
     fields_of (NamedReference_field mal) as"
  by (induction as) (auto simp add: field_single split: sum.splits)

lemma single_idem: "single_to_list (single_to_list a) = single_to_list a"
  by (cases a) (simp_all add: single_to_list_def)

lemma list_eq_all2: "list_eq xs ys = list_all2 expr_eq xs ys"
  by (induction xs arbitrary: ys) (auto split: list.splits)

section \<open>The claims about \<open>Decimal\<close>\<close>

text \<open>
  C9. The magnitude check looks at the value before it is rounded. When the checker
  accepts precision 1 and scale 0, \<open>Decimal.of("9.5", 1, 0)\<close> succeeds and stores the
  value 10, with precision 1, although the integer part of 10 needs 2 digits.
\<close>

theorem magnitude_checked_before_rounding:
  "chk 1 0 \<Longrightarrow>
   (\<exists>d. Decimal_of chk (Str ''9.5'') (Some 1) (Some 0) = Inr d \<and>
        d_value d = Finite \<lparr>sign = 0, digits = [1, 0], exponent = 0\<rparr> \<and>
        d_precision d = 1 \<and> d_precision d < int (int_part_digits (d_value d)))"
  using of_9_5 [of chk] int_part_digits_10 by simp

theorem magnitude_checked_before_rounding_witness:
  "check_precision_scale 1 0 \<and>
   (\<exists>d. Decimal_of check_precision_scale (Str ''9.5'') (Some 1) (Some 0) = Inr d \<and>
        d_value d = Finite \<lparr>sign = 0, digits = [1, 0], exponent = 0\<rparr> \<and>
        d_precision d = 1 \<and> d_precision d < int (int_part_digits (d_value d)))"
proof -
  have h: "check_precision_scale 1 0"
    by (simp add: check_precision_scale_def)
  show ?thesis
    using h magnitude_checked_before_rounding [of check_precision_scale, OF h] by simp
qed



text \<open>
  C7. When the precision is omitted, a \<open>Decimal\<close> that \<open>Decimal.of\<close> builds has as its
  precision the number of digits of the coefficient of the input; when the scale is
  omitted, its scale is the negated exponent of the input. When the checker accepts
  precision 5 and scale 2, \<open>Decimal.of("123.45")\<close> succeeds with precision 5 and scale 2.
\<close>

theorem omitted_precision_and_scale_derived:
  "(numeral_of val = Some v \<longrightarrow> Decimal_of chk val None sc = Inr d \<longrightarrow>
      d_precision d = int (length (digits v))) \<and>
   (numeral_of val = Some v \<longrightarrow> Decimal_of chk val pr None = Inr d' \<longrightarrow>
      d_scale d' = - exponent v) \<and>
   (chk 5 2 \<longrightarrow>
      Decimal_of chk (Str ''123.45'') None None =
        Inr \<lparr>d_value = Finite \<lparr>sign = 0, digits = [1, 2, 3, 4, 5], exponent = - 2\<rparr>,
             d_precision = 5, d_scale = 2\<rparr>)"
  using of_123_45 [of chk]
  by (auto simp add: Decimal_of_numeral Decimal_init_def Let_def tuple_digits_def
      negated_exponent_def split: if_splits sum.splits option.splits)

theorem omitted_precision_and_scale_derived_witness:
  "numeral_of (Str ''123.45'') = Some \<lparr>sign = 0, digits = [1, 2, 3, 4, 5], exponent = - 2\<rparr> \<and>
   check_precision_scale 5 2 \<and>
   Decimal_of check_precision_scale (Str ''123.45'') None None =
     Inr \<lparr>d_value = Finite \<lparr>sign = 0, digits = [1, 2, 3, 4, 5], exponent = - 2\<rparr>,
          d_precision = 5, d_scale = 2\<rparr> \<and>
   d_precision \<lparr>d_value = Finite \<lparr>sign = 0, digits = [1, 2, 3, 4, 5], exponent = - 2\<rparr>,
                d_precision = 5, d_scale = 2\<rparr> =
     int (length (digits \<lparr>sign = 0, digits = [1, 2, 3, 4, 5], exponent = - 2\<rparr>)) \<and>
   d_scale \<lparr>d_value = Finite \<lparr>sign = 0, digits = [1, 2, 3, 4, 5], exponent = - 2\<rparr>,
            d_precision = 5, d_scale = 2\<rparr> =
     - exponent \<lparr>sign = 0, digits = [1, 2, 3, 4, 5], exponent = - 2\<rparr>"
  using omitted_precision_and_scale_derived
      [of "Str ''123.45''" "\<lparr>sign = 0, digits = [1, 2, 3, 4, 5], exponent = - 2\<rparr>"
          check_precision_scale None
          "\<lparr>d_value = Finite \<lparr>sign = 0, digits = [1, 2, 3, 4, 5], exponent = - 2\<rparr>,
            d_precision = 5, d_scale = 2\<rparr>"
          None
          "\<lparr>d_value = Finite \<lparr>sign = 0, digits = [1, 2, 3, 4, 5], exponent = - 2\<rparr>,
            d_precision = 5, d_scale = 2\<rparr>"]
  by (simp add: numeral_of_def parse_123_45 check_precision_scale_def)

text \<open>
  C4. When \<open>Decimal.of\<close> builds a \<open>Decimal\<close> from a decimal literal (or from a finite
  \<open>decimal.Decimal\<close>), the stored value has the sign of the input, the exponent
  \<open>-scale\<close>, that is, exactly \<open>scale\<close> digits after the point, and as coefficient the
  absolute value of the input times \<open>10 ^ scale\<close>, rounded to the nearest integer with a
  half rounded up. When the checker accepts precision 4 and scale 2,
  \<open>Decimal.of("1.005", 4, 2)\<close> stores 1.01.
\<close>

theorem stored_value_rounded_half_up:
  "(numeral_of val = Some v \<longrightarrow> well_formed val \<longrightarrow> Decimal_of chk val pr sc = Inr d \<longrightarrow>
      (\<exists>q. d_value d = Finite q \<and> exponent q = - d_scale d \<and> sign q = sign v \<and>
           int (coeff (digits q)) = \<lfloor>magnitude v * 10 powi d_scale d + 1 / 2\<rfloor>)) \<and>
   (chk 4 2 \<longrightarrow>
      Decimal_of chk (Str ''1.005'') (Some 4) (Some 2) =
        Inr \<lparr>d_value = Finite \<lparr>sign = 0, digits = [1, 0, 1], exponent = - 2\<rparr>,
             d_precision = 4, d_scale = 2\<rparr>)"
proof -
  have "\<exists>q. d_value d = Finite q \<and> exponent q = - d_scale d \<and> sign q = sign v \<and>
           int (coeff (digits q)) = \<lfloor>magnitude v * 10 powi d_scale d + 1 / 2\<rfloor>"
    if n: "numeral_of val = Some v" and w: "well_formed val"
      and ok: "Decimal_of chk val pr sc = Inr d"
  proof -
    have v: "valid v"
      using n w by (rule numeral_valid)
    have "Decimal_init chk (Finite v) pr sc = Inr d"
      using ok by (simp only: Decimal_of_numeral [OF n])
    then obtain q where q: "d_value d = Finite q" "quantize v (- d_scale d) = Inr q"
      using init_finite by blast
    have r: "q = rescale v (- d_scale d)"
      using q(2) by (rule quantize_rescale)
    have "int (coeff (digits q)) = \<lfloor>magnitude v * 10 powi d_scale d + 1 / 2\<rfloor>"
      using rescale_coeff [OF v, of "- d_scale d"] by (simp add: r)
    then show ?thesis
      using q(1) rescale_fields [of v "- d_scale d"] by (simp add: r)
  qed
  then show ?thesis
    using of_1_005 [of chk] by blast
qed

theorem stored_value_rounded_half_up_witness:
  "numeral_of (Str ''1.005'') = Some \<lparr>sign = 0, digits = [1, 0, 0, 5], exponent = - 3\<rparr> \<and>
   well_formed (Str ''1.005'') \<and>
   check_precision_scale 4 2 \<and>
   Decimal_of check_precision_scale (Str ''1.005'') (Some 4) (Some 2) =
     Inr \<lparr>d_value = Finite \<lparr>sign = 0, digits = [1, 0, 1], exponent = - 2\<rparr>,
          d_precision = 4, d_scale = 2\<rparr> \<and>
   int (coeff [1, 0, 1]) =
     \<lfloor>magnitude \<lparr>sign = 0, digits = [1, 0, 0, 5], exponent = - 3\<rparr> * 10 powi 2 + 1 / 2\<rfloor>"
  using stored_value_rounded_half_up
      [of "Str ''1.005''" "\<lparr>sign = 0, digits = [1, 0, 0, 5], exponent = - 3\<rparr>"
          check_precision_scale "Some 4" "Some 2"
          "\<lparr>d_value = Finite \<lparr>sign = 0, digits = [1, 0, 1], exponent = - 2\<rparr>,
            d_precision = 4, d_scale = 2\<rparr>"]
  by (simp add: numeral_of_def parse_1_005 well_formed_def check_precision_scale_def)

text \<open>
  C5. \<open>Decimal.of\<close> builds no \<open>Decimal\<close> when the precision asked for, not negative,
  is smaller than the number of digits of the integer part of the value: it raises the
  error of the checker when the checker refuses the precision and the scale, and
  \<open>ValueError\<close> otherwise. So does \<open>Decimal.of("999", precision=2)\<close>.
\<close>

theorem precision_below_integer_digits_refused:
  "(numeral_of val = Some v \<longrightarrow> well_formed val \<longrightarrow> 0 \<le> p \<longrightarrow>
    p < int (int_part_digits (Finite v)) \<longrightarrow>
      Decimal_of chk val (Some p) sc =
        (if chk p (case sc of None \<Rightarrow> - exponent v | Some s \<Rightarrow> s)
         then Inl ValueError else Inl IllegalArgument)) \<and>
   Decimal_of chk (Str ''999'') (Some 2) None =
     (if chk 2 0 then Inl ValueError else Inl IllegalArgument)"
proof -
  have "Decimal_of chk (Str ''999'') (Some 2) None =
          (if chk 2 0 then Inl ValueError else Inl IllegalArgument)"
    by (simp add: Decimal_of_def parse_999 Decimal_init_def value_adjusted_def adjusted_def
        negated_exponent_def)
  then show ?thesis
    by (simp add: Decimal_of_numeral init_refused numeral_valid)
qed

theorem precision_below_integer_digits_refused_witness:
  "numeral_of (Str ''999'') = Some \<lparr>sign = 0, digits = [9, 9, 9], exponent = 0\<rparr> \<and>
   well_formed (Str ''999'') \<and>
   (0::int) \<le> 2 \<and>
   2 < int (int_part_digits (Finite \<lparr>sign = 0, digits = [9, 9, 9], exponent = 0\<rparr>)) \<and>
   check_precision_scale 2 0 \<and>
   Decimal_of check_precision_scale (Str ''999'') (Some 2) None = Inl ValueError"
  using precision_below_integer_digits_refused
      [of "Str ''999''" "\<lparr>sign = 0, digits = [9, 9, 9], exponent = 0\<rparr>" 2
          check_precision_scale None]
  by (simp add: numeral_of_def parse_999 well_formed_def int_part_digits_999
      check_precision_scale_def)

section \<open>The claims about transforms\<close>

text \<open>
  C2. Calling \<open>assignments()\<close> on a \<open>ListTransform\<close> or a \<open>RangeTransform\<close> does not
  return the partitions given at construction: the constructor has stored the list under
  the name of the method, so the call raises \<open>TypeError\<close>, whatever the partitions are.
  The partitions do not take part in equality.
\<close>

theorem assignments_call_raises:
  "assignments (ListTransform fs ps) = Inl TypeError \<and>
   assignments (RangeTransform f ps) = Inl TypeError \<and>
   Transforms_list (NamedReference_field (\<lambda>p. False)) [Path [''a''], Path [''b'']] None =
     Inr (ListTransform [FieldReference [''a''], FieldReference [''b'']] []) \<and>
   assignments (ListTransform [FieldReference [''a''], FieldReference [''b'']] []) \<noteq> Inr [] \<and>
   transform_eq (ListTransform fs ps) (ListTransform fs ps') \<and>
   transform_eq (RangeTransform f ps) (RangeTransform f ps')"
  by (simp add: assignments_def Transforms_list_def NamedReference_field_def)

text \<open>
  C6. The factories \<open>identity\<close>, \<open>year\<close>, \<open>month\<close>, \<open>day\<close>, \<open>hour\<close> and
  \<open>truncate\<close> replace a bare string by the list holding it before they build the
  reference, whatever \<open>NamedReference.field\<close> does; \<open>range\<close>, \<open>bucket\<close> and \<open>list\<close>
  hand each field name to \<open>NamedReference.field\<close> as it is, which takes a single name for
  the path of that one name. So each factory gives for a bare string what it gives for the
  single-segment path, and \<open>Transforms.identity("a")\<close> and \<open>Transforms.identity(["a"])\<close>
  are the same transform, on the reference with the single segment \<open>a\<close>, and are equal.
\<close>

theorem factories_normalise_bare_string:
  "Transforms_identity field a = Transforms_identity field (single_to_list a) \<and>
   Transforms_year field a = Transforms_year field (single_to_list a) \<and>
   Transforms_month field a = Transforms_month field (single_to_list a) \<and>
   Transforms_day field a = Transforms_day field (single_to_list a) \<and>
   Transforms_hour field a = Transforms_hour field (single_to_list a) \<and>
   Transforms_truncate field w a = Transforms_truncate field w (single_to_list a) \<and>
   Transforms_range (NamedReference_field mal) a ps =
     Transforms_range (NamedReference_field mal) (single_to_list a) ps \<and>
   Transforms_bucket (NamedReference_field mal) n as =
     Transforms_bucket (NamedReference_field mal) n (map single_to_list as) \<and>
   Transforms_list (NamedReference_field mal) as ps =
     Transforms_list (NamedReference_field mal) (map single_to_list as) ps \<and>
   single_to_list (Name s) = Path [s] \<and>
   (\<not> mal [s] \<longrightarrow>
      Transforms_identity (NamedReference_field mal) (Name s) =
        Inr (IdentityTransform (FieldReference [s])) \<and>
      Transforms_identity (NamedReference_field mal) (Path [s]) =
        Inr (IdentityTransform (FieldReference [s])) \<and>
      transform_eq (IdentityTransform (FieldReference [s])) (IdentityTransform (FieldReference [s])))"
  by (simp add: Transforms_identity_def Transforms_year_def Transforms_month_def Transforms_day_def
      Transforms_hour_def Transforms_truncate_def Transforms_range_def Transforms_bucket_def
      Transforms_list_def single_idem field_single fields_of_single)
     (simp add: single_to_list_def NamedReference_field_def)

theorem factories_normalise_bare_string_witness:
  "\<not> (\<lambda>p :: string list. False) [''a''] \<and>
   Transforms_identity (NamedReference_field (\<lambda>p. False)) (Name ''a'') =
     Inr (IdentityTransform (FieldReference [''a''])) \<and>
   Transforms_identity (NamedReference_field (\<lambda>p. False)) (Path [''a'']) =
     Inr (IdentityTransform (FieldReference [''a''])) \<and>
   transform_eq (IdentityTransform (FieldReference [''a'']))
                (IdentityTransform (FieldReference [''a'']))"
  using factories_normalise_bare_string
      [of "NamedReference_field (\<lambda>p. False)" "Name ''a''" 1 "\<lambda>p. False" None 1 "[]" "''a''"]
  by simp

text \<open>
  C3. For the transform built by \<open>Transforms.bucket(4, "x", "y")\<close>, \<open>name()\<close> is
  \<open>"bucket"\<close> and \<open>field_names\<close> is \<open>["x", "y"]\<close>; the transform is equal to itself
  built again, and its hash is the hash of the tuple of \<open>num_buckets\<close> and the strings of
  the fields. But \<open>num_buckets\<close> is the literal made from 4, which is not equal to the
  integer 4, and the first element of \<open>arguments()\<close> is a string, the \<open>str\<close> of a
  literal made from that literal, which is not equal to the integer literal for 4.
\<close>

theorem bucket_arguments_start_with_string:
  "Transforms_bucket (NamedReference_field (\<lambda>p. False)) 4 [Name ''x'', Name ''y''] =
     Inr (BucketTransform (Literal (PyInt 4)) [FieldReference [''x''], FieldReference [''y'']]) \<and>
   (let t = BucketTransform (Literal (PyInt 4)) [FieldReference [''x''], FieldReference [''y'']]
    in name t = ''bucket'' \<and>
       num_buckets t = Some (Literal (PyInt 4)) \<and>
       \<not> expr_eq (Literal (PyInt 4)) (PyInt 4) \<and>
       field_names t = [''x'', ''y''] \<and>
       arguments py_str t =
         [PyStr (py_str (Literal (Literal (PyInt 4)))), PyStr ''x'', PyStr ''y''] \<and>
       \<not> expr_eq (hd (arguments py_str t)) (Literal (PyInt 4)) \<and>
       transform_eq t t \<and>
       transform_hash h py_str t =
         h (Tuple [Obj (Literal (PyInt 4)),
                   Obj (PyStr (py_str (Reference (FieldReference [''x''])))),
                   Obj (PyStr (py_str (Reference (FieldReference [''y'']))))]))"
  by (simp add: Transforms_bucket_def NamedReference_field_def integer_literal_def)

text \<open>
  C8. \<open>ApplyTransform\<close> keeps its arguments in the order given. Two of them are equal
  exactly when the names are equal and the argument lists have the same length and are
  equal position by position, each pair of arguments compared with its own \<open>==\<close>; the
  hash is the hash of the pair of the name and the tuple of the arguments. So for every
  name, two argument lists that differ at some position under \<open>==\<close> give transforms that
  are not equal, and swapping two arguments that are not equal gives a different transform:
  \<open>Transforms.apply("f", 1, "x")\<close> is not equal to \<open>Transforms.apply("f", "x", 1)\<close>.
\<close>

theorem apply_transform_ordered:
  "arguments py_str (Transforms_apply nm args) = args \<and>
   (transform_eq (Transforms_apply nm args) (Transforms_apply nm' args') \<longleftrightarrow>
      nm = nm' \<and> list_all2 expr_eq args args') \<and>
   transform_hash h py_str (Transforms_apply nm args) =
      h (Tuple [Obj (PyStr nm), Tuple (map Obj args)]) \<and>
   (\<not> list_all2 expr_eq args args' \<longrightarrow>
      \<not> transform_eq (Transforms_apply nm args) (Transforms_apply nm args')) \<and>
   (\<not> expr_eq x y \<longrightarrow>
      \<not> transform_eq (Transforms_apply nm [x, y]) (Transforms_apply nm [y, x])) \<and>
   \<not> transform_eq (Transforms_apply ''f'' [PyInt 1, PyStr ''x''])
                   (Transforms_apply ''f'' [PyStr ''x'', PyInt 1])"
  by (simp add: Transforms_apply_def list_eq_all2)

theorem apply_transform_ordered_witness:
  "\<not> list_all2 expr_eq [PyInt 1, PyStr ''x''] [PyStr ''x'', PyInt 1] \<and>
   \<not> expr_eq (PyInt 1) (PyStr ''x'') \<and>
   \<not> transform_eq (Transforms_apply ''g'' [PyInt 1, PyStr ''x''])
                   (Transforms_apply ''g'' [PyStr ''x'', PyInt 1])"
  using apply_transform_ordered [of "\<lambda>x. []" "''g''" "[PyInt 1, PyStr ''x'']" "''g''"
      "[PyStr ''x'', PyInt 1]" "\<lambda>x. x" "PyInt 1" "PyStr ''x''"]
  by simp

text \<open>
  Two different orderings of arguments can give equal transforms, when the arguments
  swapped are equal to each other under \<open>==\<close> without being the same: two list
  transforms over the same fields with different partitions, or \<open>1\<close> and \<open>True\<close>.
\<close>

theorem apply_transform_reordered_equal:
  "Transforms_list (NamedReference_field (\<lambda>p. False)) [Path [''a'']] (Some [ListPartition]) =
     Inr (ListTransform [FieldReference [''a'']] [ListPartition]) \<and>
   Transforms_list (NamedReference_field (\<lambda>p. False)) [Path [''a'']] None =
     Inr (ListTransform [FieldReference [''a'']] []) \<and>
   [TransformArg (ListTransform [FieldReference [''a'']] [ListPartition]),
    TransformArg (ListTransform [FieldReference [''a'']] [])] \<noteq>
   [TransformArg (ListTransform [FieldReference [''a'']] []),
    TransformArg (ListTransform [FieldReference [''a'']] [ListPartition])] \<and>
   transform_eq
     (Transforms_apply ''f''
        [TransformArg (ListTransform [FieldReference [''a'']] [ListPartition]),
         TransformArg (ListTransform [FieldReference [''a'']] [])])
     (Transforms_apply ''f''
        [TransformArg (ListTransform [FieldReference [''a'']] []),
         TransformArg (ListTransform [FieldReference [''a'']] [ListPartition])]) \<and>
   [PyInt 1, PyBool True] \<noteq> [PyBool True, PyInt 1] \<and>
   transform_eq (Transforms_apply ''f'' [PyInt 1, PyBool True])
                (Transforms_apply ''f'' [PyBool True, PyInt 1])"
  by (simp add: Transforms_apply_def Transforms_list_def NamedReference_field_def)

text \<open>
  C10. Transforms of different variants are never equal: the \<open>__eq__\<close> of each class
  asks for an instance of the same class. So \<open>Transforms.year(p)\<close> is not equal to
  \<open>Transforms.month(p)\<close> for any field path \<open>p\<close>, and likewise for every other pair of
  distinct variants.
\<close>

theorem different_variants_never_equal:
  "variant_of t \<noteq> variant_of u \<Longrightarrow> \<not> transform_eq t u"
  by (cases t; cases u) simp_all

theorem different_variants_never_equal_witness:
  "variant_of (YearTransform (FieldReference [''ts''])) \<noteq>
     variant_of (MonthTransform (FieldReference [''ts''])) \<and>
   Transforms_year (NamedReference_field (\<lambda>p. False)) (Name ''ts'') =
     Inr (YearTransform (FieldReference [''ts''])) \<and>
   Transforms_month (NamedReference_field (\<lambda>p. False)) (Name ''ts'') =
     Inr (MonthTransform (FieldReference [''ts''])) \<and>
   \<not> transform_eq (YearTransform (FieldReference [''ts'']))
                   (MonthTransform (FieldReference [''ts'']))"
  using different_variants_never_equal
    [of "YearTransform (FieldReference [''ts''])" "MonthTransform (FieldReference [''ts''])"]
  by (simp add: Transforms_year_def Transforms_month_def NamedReference_field_def
      single_to_list_def)

end
